theory Spec2Isabelle
  imports Complex_Main
begin

section \<open>Python values, exceptions and effects\<close>

text \<open>
  The program is \<^verbatim>\<open>src/pi_control/control_interface.py\<close>. Values that come out of
  \<^verbatim>\<open>json.loads\<close> (device replies, request bodies) are modelled by \<open>json\<close>. A float is
  the rational value of the double, or one of the three special values that
  \<^verbatim>\<open>json.loads\<close> accepts (\<^verbatim>\<open>Infinity\<close>, \<^verbatim>\<open>-Infinity\<close>, \<^verbatim>\<open>NaN\<close>); the sign of a zero is
  not kept. An object is the list of its members in order; where a key occurs twice
  the last occurrence counts, as in the dict that Python builds.
\<close>

datatype pyfloat = Finite rat | PosInf | NegInf | NaN

datatype json =
    JNull
  | JBool bool
  | JInt int
  | JFloat pyfloat
  | JStr string
  | JArr "json list"
  | JObj "(string \<times> json) list"

datatype exn_class =
    JSONDecodeError | TypeError | ValueError | AttributeError
  | SerialException | UnicodeError | RecursionError

text \<open>An exception is its class and the text that \<^verbatim>\<open>str(e)\<close> gives.\<close>

datatype exn = Exn exn_class string

fun exn_class_of :: "exn \<Rightarrow> exn_class" where
  "exn_class_of (Exn c m) = c"

fun exn_str :: "exn \<Rightarrow> string" where
  "exn_str (Exn c m) = m"

type_synonym bytes = string

text \<open>
  Every call that the program makes into a library with an effect outside the process
  is recorded, in order: opening the port, sleeping (milliseconds), the three uses of
  the port object, printing, starting a timer (milliseconds) and starting the web
  server.
\<close>

datatype event =
    EvOpen string int
  | EvSleep nat
  | EvWrite bytes
  | EvInWaiting
  | EvRead nat
  | EvPrint string
  | EvTimer nat
  | EvAppRun string int

text \<open>
  The libraries are not part of the repository; what they answer is a parameter. \<open>'w\<close>
  is the state of the world outside the process (the port, the device behind it).
  A call that raises gives the exception.
\<close>

record 'w runtime =
  serial_Serial :: "string \<Rightarrow> int \<Rightarrow> 'w \<Rightarrow> exn option \<times> 'w"
  port_write :: "bytes \<Rightarrow> 'w \<Rightarrow> exn option \<times> 'w"
  port_in_waiting :: "'w \<Rightarrow> exn + nat"
  port_read :: "nat \<Rightarrow> 'w \<Rightarrow> (exn + bytes) \<times> 'w"
  time_sleep :: "nat \<Rightarrow> 'w \<Rightarrow> 'w"
  str_encode :: "string \<Rightarrow> exn + bytes"
  bytes_decode :: "bytes \<Rightarrow> exn + string"
  json_loads :: "string \<Rightarrow> exn + json"
  format_value :: "json \<Rightarrow> string"
  dict_update_seq :: "(string \<rightharpoonup> json) \<Rightarrow> json list \<Rightarrow> exn option \<times> (string \<rightharpoonup> json)"

text \<open>The module's globals, the world and the trace of effects.\<close>

record 'w state =
  world :: 'w
  trace :: "event list"
  serial_port :: "(string \<times> int) option"
  serial_connected :: bool
  device_status :: "string \<rightharpoonup> json"

definition initial_status :: "string \<rightharpoonup> json" where
  "initial_status =
     [''mode'' \<mapsto> JStr ''unknown'',
      ''btc_price'' \<mapsto> JFloat (Finite 0),
      ''btc_change'' \<mapsto> JFloat (Finite 0),
      ''wifi_connected'' \<mapsto> JBool False,
      ''last_update'' \<mapsto> JInt 0]"

definition initial_state :: "'w \<Rightarrow> 'w state" where
  "initial_state w =
     \<lparr>world = w, trace = [], serial_port = None, serial_connected = False,
      device_status = initial_status\<rparr>"

definition log_event :: "event \<Rightarrow> 'w state \<Rightarrow> 'w state" where
  "log_event e s = s\<lparr>trace := trace s @ [e]\<rparr>"

definition print :: "string \<Rightarrow> 'w state \<Rightarrow> 'w state" where
  "print msg s = log_event (EvPrint msg) s"

definition sleep :: "'w runtime \<Rightarrow> nat \<Rightarrow> 'w state \<Rightarrow> 'w state" where
  "sleep rt ms s = (log_event (EvSleep ms) s)\<lparr>world := time_sleep rt ms (world s)\<rparr>"

subsection \<open>Formatting and truth values\<close>

fun str_nat :: "nat \<Rightarrow> string" where
  "str_nat n =
     (if n < 10 then [char_of (48 + n)]
      else str_nat (n div 10) @ [char_of (48 + n mod 10)])"

declare str_nat.simps [simp del]

definition str_int :: "int \<Rightarrow> string" where
  "str_int i = (if i < 0 then CHR ''-'' # str_nat (nat (- i)) else str_nat (nat i))"

text \<open>A replacement field of an f-string: a str as it is, anything else through the library.\<close>

definition fmt :: "'w runtime \<Rightarrow> json \<Rightarrow> string" where
  "fmt rt v = (case v of JStr s \<Rightarrow> s | _ \<Rightarrow> format_value rt v)"

text \<open>Python's truth value, as \<^verbatim>\<open>not x\<close> tests it.\<close>

fun truthy :: "json \<Rightarrow> bool" where
  "truthy JNull = False"
| "truthy (JBool b) = b"
| "truthy (JInt i) = (i \<noteq> 0)"
| "truthy (JFloat f) = (f \<noteq> Finite 0)"
| "truthy (JStr s) = (s \<noteq> [])"
| "truthy (JArr xs) = (xs \<noteq> [])"
| "truthy (JObj kvs) = (kvs \<noteq> [])"

definition quoted :: "string \<Rightarrow> string" where
  "quoted s = [CHR 0x27] @ s @ [CHR 0x27]"

fun type_name :: "json \<Rightarrow> string" where
  "type_name JNull = ''NoneType''"
| "type_name (JBool b) = ''bool''"
| "type_name (JInt i) = ''int''"
| "type_name (JFloat f) = ''float''"
| "type_name (JStr s) = ''str''"
| "type_name (JArr xs) = ''list''"
| "type_name (JObj kvs) = ''dict''"

definition no_attribute :: "string \<Rightarrow> string \<Rightarrow> exn" where
  "no_attribute ty a =
     Exn AttributeError (quoted ty @ '' object has no attribute '' @ quoted a)"

definition not_iterable :: "json \<Rightarrow> exn" where
  "not_iterable v = Exn TypeError (quoted (type_name v) @ '' object is not iterable'')"

section \<open>Serial link: \<^verbatim>\<open>connect_serial\<close> and \<^verbatim>\<open>send_command\<close>\<close>

definition connect_serial ::
  "'w runtime \<Rightarrow> string \<Rightarrow> int \<Rightarrow> 'w state \<Rightarrow> (exn + bool) \<times> 'w state" where
  "connect_serial rt port baudrate s =
     (let s0 = log_event (EvOpen port baudrate) s in
      case serial_Serial rt port baudrate (world s0) of
        (None, w) \<Rightarrow>
          (let s1 = s0\<lparr>world := w, serial_port := Some (port, baudrate)\<rparr>;
               s2 = sleep rt 2000 s1;
               s3 = s2\<lparr>serial_connected := True\<rparr>;
               s4 = print (''Connected to '' @ port @ '' at '' @ str_int baudrate @ '' baud'') s3
           in (Inr True, s4))
      | (Some e, w) \<Rightarrow>
          (let s1 = print (''Failed to connect to '' @ port @ '': '' @ exn_str e) (s0\<lparr>world := w\<rparr>)
           in (Inr False, s1\<lparr>serial_connected := False\<rparr>)))"

text \<open>The body of the \<^verbatim>\<open>try\<close> of \<^verbatim>\<open>send_command\<close> (lines 52 to 55).\<close>

definition send_command_try ::
  "'w runtime \<Rightarrow> json \<Rightarrow> 'w state \<Rightarrow> (exn + string) \<times> 'w state" where
  "send_command_try rt command s =
     (case serial_port s of
        None \<Rightarrow> (Inl (no_attribute ''NoneType'' ''write''), s)
      | Some h \<Rightarrow>
         (case str_encode rt (fmt rt command @ [CHR 0x0A]) of
            Inl e \<Rightarrow> (Inl e, s)
          | Inr b \<Rightarrow>
             (let s1 = log_event (EvWrite b) s in
              case port_write rt b (world s1) of
                (Some e, w) \<Rightarrow> (Inl e, s1\<lparr>world := w\<rparr>)
              | (None, w) \<Rightarrow>
                 (let s2 = sleep rt 100 (s1\<lparr>world := w\<rparr>);
                      s3 = log_event EvInWaiting s2 in
                  case port_in_waiting rt (world s3) of
                    Inl e \<Rightarrow> (Inl e, s3)
                  | Inr n \<Rightarrow>
                     (let s4 = log_event (EvRead n) s3 in
                      case port_read rt n (world s4) of
                        (Inl e, w') \<Rightarrow> (Inl e, s4\<lparr>world := w'\<rparr>)
                      | (Inr d, w') \<Rightarrow>
                         (case bytes_decode rt d of
                            Inl e \<Rightarrow> (Inl e, s4\<lparr>world := w'\<rparr>)
                          | Inr response \<Rightarrow> (Inr response, s4\<lparr>world := w'\<rparr>)))))))"

definition send_command ::
  "'w runtime \<Rightarrow> json \<Rightarrow> 'w state \<Rightarrow> (exn + bool \<times> string) \<times> 'w state" where
  "send_command rt command s =
     (if \<not> serial_connected s then (Inr (False, ''Not connected to device''), s)
      else
        (case send_command_try rt command s of
           (Inr response, s1) \<Rightarrow> (Inr (True, response), s1)
         | (Inl e, s1) \<Rightarrow>
             (Inr (False, exn_str e), print (''Failed to send command: '' @ exn_str e) s1)))"

section \<open>Status poller: \<^verbatim>\<open>update_status\<close>\<close>

text \<open>
  \<^verbatim>\<open>device_status.update(status)\<close>. A dict argument stores every one of its members,
  in order. None, a bool or a number is not iterable. A str is iterated as its
  characters, each of length 1 where 2 is required, so only the empty str passes.
  A list is iterated as key and value pairs by the library.
\<close>

definition dict_update ::
  "'w runtime \<Rightarrow> (string \<rightharpoonup> json) \<Rightarrow> json \<Rightarrow> exn option \<times> (string \<rightharpoonup> json)" where
  "dict_update rt d v =
     (case v of
        JObj kvs \<Rightarrow> (None, fold (\<lambda>(k, x) m. m(k \<mapsto> x)) kvs d)
      | JArr xs \<Rightarrow> dict_update_seq rt d xs
      | JStr t \<Rightarrow>
          (if t = [] then (None, d)
           else (Some (Exn ValueError
                   ''dictionary update sequence element #0 has length 1; 2 is required''), d))
      | _ \<Rightarrow> (Some (not_iterable v), d))"

text \<open>The body of the \<^verbatim>\<open>try\<close> of \<^verbatim>\<open>update_status\<close> (lines 67 and 68).\<close>

definition update_status_try ::
  "'w runtime \<Rightarrow> string \<Rightarrow> 'w state \<Rightarrow> exn option \<times> 'w state" where
  "update_status_try rt response s =
     (case json_loads rt response of
        Inl e \<Rightarrow> (Some e, s)
      | Inr status \<Rightarrow>
          (case dict_update rt (device_status s) status of
             (r, d) \<Rightarrow> (r, s\<lparr>device_status := d\<rparr>)))"

text \<open>
  One run of \<^verbatim>\<open>update_status\<close>. Only \<^verbatim>\<open>json.JSONDecodeError\<close> is caught; any other
  exception leaves the function before the timer is started.
\<close>

definition update_status :: "'w runtime \<Rightarrow> 'w state \<Rightarrow> (exn + unit) \<times> 'w state" where
  "update_status rt s =
     (case send_command rt (JStr ''status'') s of
        (Inl e, s1) \<Rightarrow> (Inl e, s1)
      | (Inr (success, response), s1) \<Rightarrow>
          (case (if success then
                   (case update_status_try rt response s1 of
                      (None, s2) \<Rightarrow> (None, s2)
                    | (Some e, s2) \<Rightarrow>
                        (if exn_class_of e = JSONDecodeError
                         then (None, print (''Failed to parse status response: '' @ response) s2)
                         else (Some e, s2)))
                 else (None, s1)) of
             (Some e, s3) \<Rightarrow> (Inl e, s3)
           | (None, s3) \<Rightarrow> (Inr (), log_event (EvTimer 5000) s3)))"

section \<open>HTTP facade: \<^verbatim>\<open>api_command\<close> and \<^verbatim>\<open>api_mode\<close>\<close>

text \<open>
  A handler gets the value of \<^verbatim>\<open>request.json\<close>, the body already parsed by the
  framework. A view that returns a pair gives the second component as the status
  code, otherwise 200. The body of the answer is the dict given to \<^verbatim>\<open>jsonify\<close>.
\<close>

record response =
  body :: json
  code :: nat

text \<open>\<^verbatim>\<open>request.json.get(k)\<close>: None where the key is absent; only a dict has \<^verbatim>\<open>get\<close>.\<close>

definition dict_get :: "json \<Rightarrow> string \<Rightarrow> exn + json" where
  "dict_get v k =
     (case v of
        JObj kvs \<Rightarrow> Inr (case map_of (rev kvs) k of None \<Rightarrow> JNull | Some x \<Rightarrow> x)
      | _ \<Rightarrow> Inl (no_attribute (type_name v) ''get''))"

definition api_command ::
  "'w runtime \<Rightarrow> json \<Rightarrow> 'w state \<Rightarrow> (exn + response) \<times> 'w state" where
  "api_command rt req s =
     (case dict_get req ''command'' of
        Inl e \<Rightarrow> (Inl e, s)
      | Inr command \<Rightarrow>
          (if \<not> truthy command then
             (Inr \<lparr>body = JObj [(''success'', JBool False),
                                (''error'', JStr ''No command provided'')],
                   code = 400\<rparr>, s)
           else
             (case send_command rt command s of
                (Inl e, s1) \<Rightarrow> (Inl e, s1)
              | (Inr (success, resp), s1) \<Rightarrow>
                  (Inr \<lparr>body = JObj [(''success'', JBool success), (''response'', JStr resp)],
                        code = 200\<rparr>, s1))))"

definition api_mode ::
  "'w runtime \<Rightarrow> json \<Rightarrow> 'w state \<Rightarrow> (exn + response) \<times> 'w state" where
  "api_mode rt req s =
     (case dict_get req ''mode'' of
        Inl e \<Rightarrow> (Inl e, s)
      | Inr mode \<Rightarrow>
          (if \<not> truthy mode then
             (Inr \<lparr>body = JObj [(''success'', JBool False),
                                (''error'', JStr ''No mode provided'')],
                   code = 400\<rparr>, s)
           else
             (case send_command rt (JStr (''mode '' @ fmt rt mode)) s of
                (Inl e, s1) \<Rightarrow> (Inl e, s1)
              | (Inr (success, resp), s1) \<Rightarrow>
                  (Inr \<lparr>body = JObj [(''success'', JBool success), (''response'', JStr resp)],
                        code = 200\<rparr>, s1))))"

section \<open>\<^verbatim>\<open>main\<close>\<close>

record args =
  arg_port :: string
  arg_baud :: int
  arg_host :: string
  arg_port_web :: int

definition default_args :: args where
  "default_args =
     \<lparr>arg_port = ''/dev/ttyUSB0'', arg_baud = 115200, arg_host = ''0.0.0.0'',
      arg_port_web = 8080\<rparr>"

definition main :: "'w runtime \<Rightarrow> args \<Rightarrow> 'w state \<Rightarrow> (exn + unit) \<times> 'w state" where
  "main rt a s =
     (case connect_serial rt (arg_port a) (arg_baud a) s of
        (Inl e, s1) \<Rightarrow> (Inl e, s1)
      | (Inr ok, s1) \<Rightarrow>
          (if ok then
             (case update_status rt s1 of
                (Inl e, s2) \<Rightarrow> (Inl e, s2)
              | (Inr u, s2) \<Rightarrow> (Inr (), log_event (EvAppRun (arg_host a) (arg_port_web a)) s2))
           else
             (Inr (), print
                ''Failed to connect to the device. Please check the connection and try again.''
                s1)))"

section \<open>A scripted port for concrete runs\<close>

text \<open>
  The world is the bytes that the device has sent and the process has not read. The
  port opens when \<open>opens\<close> says so, takes every write, and hands out what is waiting.
  Text is ASCII, so encoding and decoding change nothing; \<open>loads\<close> is the table of
  the replies that parse. No run on this port formats a value that is not a str or
  merges a list, so these two fields are never asked.
\<close>

definition scripted :: "bool \<Rightarrow> (string \<rightharpoonup> json) \<Rightarrow> bytes runtime" where
  "scripted opens loads =
     \<lparr>serial_Serial = (\<lambda>p b w.
          if opens then (None, w)
          else (Some (Exn SerialException (''could not open port '' @ p)), w)),
      port_write = (\<lambda>b w. (None, w)),
      port_in_waiting = (\<lambda>w. Inr (length w)),
      port_read = (\<lambda>n w. (Inr (take n w), drop n w)),
      time_sleep = (\<lambda>ms w. w),
      str_encode = Inr,
      bytes_decode = Inr,
      json_loads = (\<lambda>t. case loads t of
          None \<Rightarrow> Inl (Exn JSONDecodeError ''Expecting value: line 1 column 1 (char 0)'')
        | Some v \<Rightarrow> Inr v),
      format_value = (\<lambda>v. []),
      dict_update_seq = (\<lambda>d xs. (None, d))\<rparr>"

definition connected_state :: "bytes \<Rightarrow> bytes state" where
  "connected_state w =
     (initial_state w)\<lparr>serial_port := Some (''/dev/ttyUSB0'', 115200),
                       serial_connected := True\<rparr>"

definition status_keys :: "string set" where
  "status_keys = {''mode'', ''btc_price'', ''btc_change'', ''wifi_connected'', ''last_update''}"

text \<open>Replies of the device, as text, and the double that \<^verbatim>\<open>65000.1\<close> denotes.\<close>

definition reply_foo :: string where
  \<open>reply_foo = ''{"foo": 1}''\<close>

definition reply_sniff :: string where
  \<open>reply_sniff = ''{"mode":"sniff","btc_price":65000.1}''\<close>

definition double_65000_1 :: json where
  "double_65000_1 = JFloat (Finite (8933545719575347 / 137438953472))"

definition reply_scan :: string where
  \<open>reply_scan = ''{"mode": "scan", "wifi_connected": true}''\<close>

text \<open>
  Two ports that fail. On the first the line is noisy: the device's reply is the single
  byte 0xFF, which is not UTF-8, and \<^verbatim>\<open>decode\<close> raises on it. On the second the cable
  is gone and every write raises.
\<close>

definition invalid_start_byte :: exn where
  "invalid_start_byte =
     Exn UnicodeError (quoted ''utf-8'' @ '' codec can'' @ [CHR 0x27] @
       ''t decode byte 0xff in position 0: invalid start byte'')"

definition noisy :: "bytes runtime" where
  "noisy = (scripted True Map.empty)
     \<lparr>bytes_decode := (\<lambda>d. if d = [CHR 0xFF] then Inl invalid_start_byte else Inr d)\<rparr>"



text \<open>The lines that \<^verbatim>\<open>update_status\<close> prints on a parse failure.\<close>

definition is_parse_failure :: "event \<Rightarrow> bool" where
  "is_parse_failure e =
     (case e of
        EvPrint m \<Rightarrow>
          take (length ''Failed to parse status response: '') m =
            ''Failed to parse status response: ''
      | _ \<Rightarrow> False)"

section \<open>Properties of the serial link\<close>

lemmas send_defs =
  send_command_def send_command_try_def Let_def log_event_def sleep_def print_def

text \<open>\<^verbatim>\<open>send_command\<close> assigns none of the globals.\<close>

lemma send_command_frame:
  "send_command rt c s = (r, s') \<Longrightarrow>
     device_status s' = device_status s \<and> serial_port s' = serial_port s \<and>
     serial_connected s' = serial_connected s"
  by (auto simp: send_defs split: if_splits option.splits sum.splits prod.splits)

text \<open>
  C1. For every command, \<^verbatim>\<open>send_command\<close> called while the connection flag is not set
  returns the pair (False, "Not connected to device") and leaves the state as it was:
  the trace gets no event (no write, no read, nothing else) and the world behind the
  port is the same.
\<close>

theorem send_command_not_connected:
  "\<not> serial_connected s \<Longrightarrow>
     fst (send_command rt command s) = Inr (False, ''Not connected to device'') \<and>
     snd (send_command rt command s) = s"
  by (simp add: send_command_def)

theorem send_command_not_connected_witness:
  "\<not> serial_connected (initial_state ''x'') \<and>
   fst (send_command (scripted True Map.empty) (JStr ''status'') (initial_state ''x''))
     = Inr (False, ''Not connected to device'') \<and>
   trace (snd (send_command (scripted True Map.empty) (JStr ''status'') (initial_state ''x'')))
     = []"
  using send_command_not_connected
    [of "initial_state ''x''" "scripted True Map.empty" "JStr ''status''"]
  by (simp add: initial_state_def)



section \<open>Properties of the status poller\<close>

lemma dom_initial_status: "dom initial_status = status_keys"
  by (auto simp: initial_status_def status_keys_def)

lemma dom_fold_upd:
  "dom (fold (\<lambda>(k, x) m. m(k \<mapsto> x)) kvs d) = dom d \<union> fst ` set kvs"
  by (induction kvs arbitrary: d) auto

text \<open>Storing the members in order is adding the object's map, the last occurrence winning.\<close>

lemma fold_upd_map_add:
  "fold (\<lambda>(k, x) m. m(k \<mapsto> x)) kvs d = d ++ map_of (rev kvs)"
proof (induction kvs arbitrary: d)
  case Nil
  show ?case by simp
next
  case (Cons p kvs)
  obtain k x where p: "p = (k, x)" by (cases p)
  have "fold (\<lambda>(k, x) m. m(k \<mapsto> x)) (p # kvs) d =
      fold (\<lambda>(k, x) m. m(k \<mapsto> x)) kvs (d(k \<mapsto> x))"
    using p by simp
  also have "\<dots> = d(k \<mapsto> x) ++ map_of (rev kvs)"
    by (rule Cons.IH)
  also have "\<dots> = d ++ (map_of [(k, x)] ++ map_of (rev kvs))"
    by simp
  also have "\<dots> = d ++ map_of (rev (p # kvs))"
    using p by (simp add: map_of_append del: map_of.simps)
  finally show ?case .
qed

text \<open>A poll whose reply parses as an object stores every member and starts the timer.\<close>

lemma update_status_object:
  assumes "send_command rt (JStr ''status'') s = (Inr (True, response), s1)"
    and "json_loads rt response = Inr (JObj kvs)"
  shows "update_status rt s =
     (Inr (), s1\<lparr>device_status := fold (\<lambda>(k, x) m. m(k \<mapsto> x)) kvs (device_status s),
                 trace := trace s1 @ [EvTimer 5000]\<rparr>)"
  using assms send_command_frame [OF assms(1)]
  by (simp add: update_status_def update_status_try_def dict_update_def log_event_def)

text \<open>What the scripted port answers to a status request.\<close>

lemma send_status_scripted:
  "send_command (scripted True tbl) (JStr ''status'') (connected_state w) =
     (Inr (True, w), (connected_state [])\<lparr>trace := [EvWrite (''status'' @ [CHR 0x0A]), EvSleep 100, EvInWaiting, EvRead (length w)]\<rparr>)"
  by (simp add: connected_state_def initial_state_def scripted_def fmt_def send_defs)

text \<open>
  C2, as amended. For every device reply that parses as a JSON object, the poller
  stores every member of the reply in the shared record, recognized or not: each key
  of the reply gets the reply's value and every other key keeps its own. So after every
  poll the key set is the key set before the poll together with the keys of the reply;
  the five status fields stay in it, and a key that is none of them stays too.
\<close>

theorem update_status_keys:
  assumes "send_command rt (JStr ''status'') s = (Inr (True, response), s1)"
    and "json_loads rt response = Inr (JObj kvs)"
  shows "device_status (snd (update_status rt s)) = device_status s ++ map_of (rev kvs) \<and>
         dom (device_status (snd (update_status rt s))) = dom (device_status s) \<union> fst ` set kvs \<and>
         (status_keys \<subseteq> dom (device_status s) \<longrightarrow>
            status_keys \<subseteq> dom (device_status (snd (update_status rt s))))"
proof -
  have d: "device_status (snd (update_status rt s)) = device_status s ++ map_of (rev kvs)"
    by (simp add: update_status_object [OF assms] fold_upd_map_add)
  have k: "dom (device_status (snd (update_status rt s))) = dom (device_status s) \<union> fst ` set kvs"
    by (simp add: update_status_object [OF assms] dom_fold_upd)
  from d k show ?thesis by blast
qed

theorem update_status_keys_witness:
  "status_keys \<subseteq> dom (device_status (connected_state reply_scan)) \<and>
   device_status (snd (update_status
       (scripted True
          [reply_scan \<mapsto> JObj [(''mode'', JStr ''scan''), (''wifi_connected'', JBool True)]])
       (connected_state reply_scan)))
     = initial_status(''mode'' \<mapsto> JStr ''scan'', ''wifi_connected'' \<mapsto> JBool True) \<and>
   dom (device_status (snd (update_status
       (scripted True
          [reply_scan \<mapsto> JObj [(''mode'', JStr ''scan''), (''wifi_connected'', JBool True)]])
       (connected_state reply_scan))))
     = status_keys"
proof -
  let ?kvs = "[(''mode'', JStr ''scan''), (''wifi_connected'', JBool True)]"
  let ?rt = "scripted True [reply_scan \<mapsto> JObj ?kvs]"
  have loads: "json_loads ?rt reply_scan = Inr (JObj ?kvs)"
    by (simp add: scripted_def)
  have before: "device_status (connected_state reply_scan) = initial_status"
    by (simp add: connected_state_def initial_state_def)
  have keys: "dom initial_status \<union> fst ` set ?kvs = status_keys"
    by (auto simp: dom_initial_status status_keys_def)
  note r = update_status_keys [OF send_status_scripted loads, unfolded before]
  have "device_status (snd (update_status ?rt (connected_state reply_scan)))
      = initial_status(''mode'' \<mapsto> JStr ''scan'', ''wifi_connected'' \<mapsto> JBool True)"
    using r [THEN conjunct1] by simp
  moreover have "dom (device_status (snd (update_status ?rt (connected_state reply_scan))))
      = status_keys"
    using r [THEN conjunct2, THEN conjunct1] keys by (simp only:)
  ultimately show ?thesis
    by (simp add: before dom_initial_status)
qed

text \<open>
  C2 as stated fails: the reply \<^verbatim>\<open>{"foo": 1}\<close> parses as an object, and after the poll
  the record has the key \<^verbatim>\<open>foo\<close> beside the five status fields.
\<close>

theorem update_status_keys_counterexample:
  "\<not> (dom (device_status (snd (update_status
          (scripted True [reply_foo \<mapsto> JObj [(''foo'', JInt 1)]]) (connected_state reply_foo))))
        = status_keys)"
proof -
  let ?rt = "scripted True [reply_foo \<mapsto> JObj [(''foo'', JInt 1)]]"
  have loads: "json_loads ?rt reply_foo = Inr (JObj [(''foo'', JInt 1)])"
    by (simp add: scripted_def)
  have "device_status (snd (update_status ?rt (connected_state reply_foo))) ''foo'' = Some (JInt 1)"
    by (simp add: update_status_object [OF send_status_scripted loads])
  then have "''foo'' \<in> dom (device_status (snd (update_status ?rt (connected_state reply_foo))))"
    by blast
  moreover have "''foo'' \<notin> status_keys"
    by (simp add: status_keys_def)
  ultimately show ?thesis by metis
qed

text \<open>
  C3. If the reply to a status poll is the object with \<^verbatim>\<open>mode\<close> "sniff" and
  \<^verbatim>\<open>btc_price\<close> a number \<open>x\<close> (65000.1 in the claim), then after the poll \<^verbatim>\<open>mode\<close> is
  "sniff", \<^verbatim>\<open>btc_price\<close> is \<open>x\<close>, and \<^verbatim>\<open>wifi_connected\<close>, \<^verbatim>\<open>btc_change\<close> and
  \<^verbatim>\<open>last_update\<close> are what they were before the poll.
\<close>

theorem update_status_sniff:
  assumes "send_command rt (JStr ''status'') s = (Inr (True, response), s1)"
    and "json_loads rt response = Inr (JObj [(''mode'', JStr ''sniff''), (''btc_price'', x)])"
  shows "device_status (snd (update_status rt s)) ''mode'' = Some (JStr ''sniff'') \<and>
         device_status (snd (update_status rt s)) ''btc_price'' = Some x \<and>
         device_status (snd (update_status rt s)) ''wifi_connected'' = device_status s ''wifi_connected'' \<and>
         device_status (snd (update_status rt s)) ''btc_change'' = device_status s ''btc_change'' \<and>
         device_status (snd (update_status rt s)) ''last_update'' = device_status s ''last_update''"
  by (simp add: update_status_object [OF assms])

theorem update_status_sniff_witness:
  "(let d = device_status (snd (update_status
       (scripted True
          [reply_sniff \<mapsto> JObj [(''mode'', JStr ''sniff''), (''btc_price'', double_65000_1)]])
       (connected_state reply_sniff)))
    in d ''mode'' = Some (JStr ''sniff'') \<and> d ''btc_price'' = Some double_65000_1 \<and>
       d ''wifi_connected'' = Some (JBool False) \<and> d ''btc_change'' = Some (JFloat (Finite 0)) \<and>
       d ''last_update'' = Some (JInt 0))"
proof -
  let ?kvs = "[(''mode'', JStr ''sniff''), (''btc_price'', double_65000_1)]"
  let ?rt = "scripted True [reply_sniff \<mapsto> JObj ?kvs]"
  have loads: "json_loads ?rt reply_sniff = Inr (JObj ?kvs)"
    by (simp add: scripted_def)
  show ?thesis
    using update_status_sniff [OF send_status_scripted loads]
    by (simp add: connected_state_def initial_state_def initial_status_def)
qed

text \<open>
  C4, as amended. The reply is the bytes \<open>d\<close> that the read gives. Where they decode to a
  text on which \<^verbatim>\<open>json.loads\<close> raises \<^verbatim>\<open>JSONDecodeError\<close> (the text OK, say), the poller
  prints the parse failure with the reply, starts the next timer, and leaves the shared
  record as it was. Where they do not decode, the reply never reaches the parser:
  \<^verbatim>\<open>send_command\<close> prints a failed send, no parse failure is printed, the next timer is
  started, and the shared record is as it was.
\<close>

theorem update_status_not_json:
  assumes "serial_connected s" and "serial_port s = Some h"
    and "str_encode rt (''status'' @ [CHR 0x0A]) = Inr b"
    and "port_write rt b (world s) = (None, w1)"
    and "port_in_waiting rt (time_sleep rt 100 w1) = Inr n"
    and "port_read rt n (time_sleep rt 100 w1) = (Inr d, w3)"
  shows "(\<forall>response e.
            bytes_decode rt d = Inr response \<and> json_loads rt response = Inl e \<and>
            exn_class_of e = JSONDecodeError \<longrightarrow>
            update_status rt s =
              (Inr (),
               s\<lparr>world := w3,
                 trace := trace s @
                   [EvWrite b, EvSleep 100, EvInWaiting, EvRead n,
                    EvPrint (''Failed to parse status response: '' @ response),
                    EvTimer 5000]\<rparr>) \<and>
            device_status (snd (update_status rt s)) = device_status s) \<and>
         (\<forall>e.
            bytes_decode rt d = Inl e \<longrightarrow>
            update_status rt s =
              (Inr (),
               s\<lparr>world := w3,
                 trace := trace s @
                   [EvWrite b, EvSleep 100, EvInWaiting, EvRead n,
                    EvPrint (''Failed to send command: '' @ exn_str e),
                    EvTimer 5000]\<rparr>) \<and>
            device_status (snd (update_status rt s)) = device_status s)"
  using assms
  by (intro conjI allI impI)
    (simp_all add: update_status_def update_status_try_def fmt_def send_defs)

theorem update_status_not_json_witness:
  "update_status (scripted True Map.empty) (connected_state ''OK'') =
     (Inr (),
      (connected_state [])
        \<lparr>trace := [EvWrite (''status'' @ [CHR 0x0A]), EvSleep 100, EvInWaiting, EvRead 2,
           EvPrint ''Failed to parse status response: OK'', EvTimer 5000]\<rparr>) \<and>
   update_status noisy (connected_state [CHR 0xFF]) =
     (Inr (),
      (connected_state [])
        \<lparr>trace := [EvWrite (''status'' @ [CHR 0x0A]), EvSleep 100, EvInWaiting, EvRead 1,
           EvPrint (''Failed to send command: '' @ exn_str invalid_start_byte),
           EvTimer 5000]\<rparr>)"
proof -
  let ?rt = "scripted True Map.empty"
  let ?e = "Exn JSONDecodeError ''Expecting value: line 1 column 1 (char 0)''"
  have s: "serial_connected (connected_state w)"
    "serial_port (connected_state w) = Some (''/dev/ttyUSB0'', 115200)" for w :: bytes
    by (simp_all add: connected_state_def)
  have a: "str_encode ?rt (''status'' @ [CHR 0x0A]) = Inr (''status'' @ [CHR 0x0A])"
    "port_write ?rt (''status'' @ [CHR 0x0A]) (world (connected_state ''OK'')) = (None, ''OK'')"
    "port_in_waiting ?rt (time_sleep ?rt 100 ''OK'') = Inr 2"
    "port_read ?rt 2 (time_sleep ?rt 100 ''OK'') = (Inr ''OK'', [])"
    by (simp_all add: scripted_def connected_state_def initial_state_def)
  have a': "bytes_decode ?rt ''OK'' = Inr ''OK'' \<and> json_loads ?rt ''OK'' = Inl ?e \<and>
      exn_class_of ?e = JSONDecodeError"
    by (simp add: scripted_def)
  have b: "str_encode noisy (''status'' @ [CHR 0x0A]) = Inr (''status'' @ [CHR 0x0A])"
    "port_write noisy (''status'' @ [CHR 0x0A]) (world (connected_state [CHR 0xFF]))
       = (None, [CHR 0xFF])"
    "port_in_waiting noisy (time_sleep noisy 100 [CHR 0xFF]) = Inr 1"
    "port_read noisy 1 (time_sleep noisy 100 [CHR 0xFF]) = (Inr [CHR 0xFF], [])"
    by (simp_all add: noisy_def scripted_def connected_state_def initial_state_def)
  have b': "bytes_decode noisy [CHR 0xFF] = Inl invalid_start_byte"
    by (simp add: noisy_def)
  have "update_status ?rt (connected_state ''OK'') =
     (Inr (),
      (connected_state ''OK'')
        \<lparr>world := [],
         trace := trace (connected_state ''OK'') @
           [EvWrite (''status'' @ [CHR 0x0A]), EvSleep 100, EvInWaiting, EvRead 2,
            EvPrint (''Failed to parse status response: '' @ ''OK''), EvTimer 5000]\<rparr>)"
    using update_status_not_json [OF s a, THEN conjunct1, rule_format, OF a', THEN conjunct1] .
  moreover have "update_status noisy (connected_state [CHR 0xFF]) =
     (Inr (),
      (connected_state [CHR 0xFF])
        \<lparr>world := [],
         trace := trace (connected_state [CHR 0xFF]) @
           [EvWrite (''status'' @ [CHR 0x0A]), EvSleep 100, EvInWaiting, EvRead 1,
            EvPrint (''Failed to send command: '' @ exn_str invalid_start_byte),
            EvTimer 5000]\<rparr>)"
    using update_status_not_json [OF s b, THEN conjunct2, rule_format, OF b', THEN conjunct1] .
  ultimately show ?thesis
    by (simp add: connected_state_def initial_state_def)
qed

text \<open>
  C4 as stated fails: the reply that is the single byte 0xFF is not JSON, and the poll
  prints no parse failure; what is printed is the failed send.
\<close>

theorem update_status_not_json_counterexample:
  "bytes_decode noisy [CHR 0xFF] = Inl invalid_start_byte \<and>
   trace (snd (update_status noisy (connected_state [CHR 0xFF]))) =
     [EvWrite (''status'' @ [CHR 0x0A]), EvSleep 100, EvInWaiting, EvRead 1,
      EvPrint (''Failed to send command: '' @ exn_str invalid_start_byte), EvTimer 5000] \<and>
   filter is_parse_failure (trace (snd (update_status noisy (connected_state [CHR 0xFF])))) = []"
proof -
  have t: "trace (snd (update_status noisy (connected_state [CHR 0xFF]))) =
     [EvWrite (''status'' @ [CHR 0x0A]), EvSleep 100, EvInWaiting, EvRead 1,
      EvPrint (''Failed to send command: '' @ exn_str invalid_start_byte), EvTimer 5000]"
    by (simp add: update_status_def fmt_def send_defs noisy_def scripted_def
        connected_state_def initial_state_def)
  have f: "\<not> is_parse_failure (EvPrint (''Failed to send command: '' @ m))" for m
    by (simp add: is_parse_failure_def)
  show ?thesis
    unfolding t by (simp add: noisy_def f) (simp add: is_parse_failure_def)
qed

text \<open>
  An exception of \<^verbatim>\<open>json.loads\<close> that is not a \<^verbatim>\<open>JSONDecodeError\<close> (\<^verbatim>\<open>RecursionError\<close> on
  a reply nested too deep) leaves \<^verbatim>\<open>update_status\<close> as the \<^verbatim>\<open>TypeError\<close> of C5 does.
\<close>

lemma update_status_other_exception:
  assumes "send_command rt (JStr ''status'') s = (Inr (True, response), s1)"
    and "json_loads rt response = Inl e"
    and "exn_class_of e \<noteq> JSONDecodeError"
  shows "update_status rt s = (Inl e, s1)"
  using assms by (simp add: update_status_def update_status_try_def)

text \<open>
  C5 fails on the code. The reply \<^verbatim>\<open>5\<close> is JSON but not an object: \<^verbatim>\<open>dict.update\<close> raises
  \<^verbatim>\<open>TypeError\<close>, which the \<^verbatim>\<open>except json.JSONDecodeError\<close> clause does not catch, and
  the run ends before the timer of the next tick is started.
\<close>

theorem update_status_number_raises:
  "fst (update_status (scripted True [''5'' \<mapsto> JInt 5]) (connected_state ''5''))
     = Inl (Exn TypeError (quoted ''int'' @ '' object is not iterable'')) \<and>
   trace (snd (update_status (scripted True [''5'' \<mapsto> JInt 5]) (connected_state ''5'')))
     = [EvWrite (''status'' @ [CHR 0x0A]), EvSleep 100, EvInWaiting, EvRead 1] \<and>
   EvTimer 5000 \<notin> set (trace (snd (update_status (scripted True [''5'' \<mapsto> JInt 5]) (connected_state ''5''))))"
proof -
  let ?rt = "scripted True [''5'' \<mapsto> JInt 5]"
  have loads: "json_loads ?rt ''5'' = Inr (JInt 5)"
    by (simp add: scripted_def)
  show ?thesis
    by (simp add: update_status_def update_status_try_def dict_update_def not_iterable_def
        send_status_scripted loads)
qed

section \<open>Properties of the HTTP facade\<close>

text \<open>A successful \<^verbatim>\<open>connect_serial\<close> sets the flag and the port object.\<close>

lemma connect_serial_establishes:
  "connect_serial rt port baudrate s = (Inr True, s') \<Longrightarrow>
     serial_connected s' \<and> serial_port s' = Some (port, baudrate)"
  by (auto simp: connect_serial_def Let_def log_event_def print_def sleep_def
      split: prod.splits option.splits)

text \<open>
  C6. A POST to \<^verbatim>\<open>/api/mode\<close> with the body \<^verbatim>\<open>{"mode": "scan"}\<close>, while connected, makes
  exactly one write to the port, and what it writes is the encoding \<open>b\<close> of the text
  "mode scan" followed by a newline: the trace grows by that write and by calls that
  are not writes.
\<close>

theorem api_mode_scan_write:
  assumes "serial_connected s" and "serial_port s = Some h"
    and "str_encode rt (''mode scan'' @ [CHR 0x0A]) = Inr b"
  shows "\<exists>rest. trace (snd (api_mode rt (JObj [(''mode'', JStr ''scan'')]) s))
                  = trace s @ [EvWrite b] @ rest \<and>
               filter (\<lambda>e. case e of EvWrite x \<Rightarrow> True | _ \<Rightarrow> False) rest = []"
  using assms
  by (auto simp: api_mode_def dict_get_def fmt_def send_defs
      split: option.splits sum.splits prod.splits)

theorem api_mode_scan_write_witness:
  "trace (snd (api_mode (scripted True Map.empty) (JObj [(''mode'', JStr ''scan'')])
                 (connected_state ''OK'')))
     = [EvWrite (''mode scan'' @ [CHR 0x0A]), EvSleep 100, EvInWaiting, EvRead 2]"
proof -
  have c: "serial_connected (connected_state ''OK'')"
    and p: "serial_port (connected_state ''OK'') = Some (''/dev/ttyUSB0'', 115200)"
    and e: "str_encode (scripted True Map.empty) (''mode scan'' @ [CHR 0x0A])
              = Inr (''mode scan'' @ [CHR 0x0A])"
    by (simp_all add: connected_state_def initial_state_def scripted_def)
  show ?thesis
    using api_mode_scan_write [OF c p e]
    by (simp add: api_mode_def dict_get_def fmt_def send_defs connected_state_def
        initial_state_def scripted_def)
qed

text \<open>
  C7. A POST to \<^verbatim>\<open>/api/command\<close> whose body is an object without the key \<^verbatim>\<open>command\<close>
  (the empty object among them) is answered with status 400 and the body
  \<^verbatim>\<open>{"success": false, "error": "No command provided"}\<close>; the state, and with it the
  trace and the world behind the port, is as before.
\<close>

theorem api_command_no_command:
  "''command'' \<notin> fst ` set kvs \<Longrightarrow>
     api_command rt (JObj kvs) s =
       (Inr \<lparr>body = JObj [(''success'', JBool False), (''error'', JStr ''No command provided'')],
             code = 400\<rparr>, s)"
  by (simp add: api_command_def dict_get_def map_of_eq_None_iff [THEN iffD2])

theorem api_command_no_command_witness:
  "api_command (scripted True Map.empty) (JObj []) (connected_state ''OK'') =
       (Inr \<lparr>body = JObj [(''success'', JBool False), (''error'', JStr ''No command provided'')],
             code = 400\<rparr>, connected_state ''OK'')"
  using api_command_no_command [of "[]" "scripted True Map.empty" "connected_state ''OK''"]
  by simp

text \<open>
  C10. Where the value \<open>v\<close> that \<^verbatim>\<open>request.json.get\<close> gives for the required field is
  falsy (None for a missing key, the empty str, 0, false, an empty list or object),
  \<^verbatim>\<open>/api/command\<close> and \<^verbatim>\<open>/api/mode\<close> answer 400 with "No command provided" and
  "No mode provided", exactly as for the empty body, and leave the state, the trace
  and the world as they were.
\<close>

theorem api_falsy_field:
  assumes "\<not> truthy v"
  shows "(dict_get req ''command'' = Inr v \<longrightarrow>
            api_command rt req s =
              (Inr \<lparr>body = JObj [(''success'', JBool False),
                                 (''error'', JStr ''No command provided'')],
                    code = 400\<rparr>, s) \<and>
            api_command rt req s = api_command rt (JObj []) s) \<and>
         (dict_get req ''mode'' = Inr v \<longrightarrow>
            api_mode rt req s =
              (Inr \<lparr>body = JObj [(''success'', JBool False),
                                 (''error'', JStr ''No mode provided'')],
                    code = 400\<rparr>, s) \<and>
            api_mode rt req s = api_mode rt (JObj []) s)"
  using assms by (simp add: api_command_def api_mode_def dict_get_def)

theorem api_falsy_field_witness:
  "\<not> truthy (JStr '''') \<and>
   api_command (scripted True Map.empty) (JObj [(''command'', JStr '''')])
       (connected_state ''OK'') =
     (Inr \<lparr>body = JObj [(''success'', JBool False), (''error'', JStr ''No command provided'')],
           code = 400\<rparr>, connected_state ''OK'') \<and>
   api_mode (scripted True Map.empty) (JObj [(''mode'', JStr '''')])
       (connected_state ''OK'') =
     (Inr \<lparr>body = JObj [(''success'', JBool False), (''error'', JStr ''No mode provided'')],
           code = 400\<rparr>, connected_state ''OK'')"
  using
    api_falsy_field [of "JStr ''''" "JObj [(''command'', JStr '''')]"
      "scripted True Map.empty" "connected_state ''OK''"]
    api_falsy_field [of "JStr ''''" "JObj [(''mode'', JStr '''')]"
      "scripted True Map.empty" "connected_state ''OK''"]
  by (simp add: dict_get_def)

section \<open>Properties of \<^verbatim>\<open>main\<close>\<close>

text \<open>
  Where the port does not open, \<^verbatim>\<open>main\<close> prints the two failure messages and returns;
  no timer and no web server is started.
\<close>

lemma main_connect_fails:
  assumes "serial_Serial rt (arg_port a) (arg_baud a) (world s) = (Some e, w)"
  shows "main rt a s =
     (Inr (), s\<lparr>world := w, serial_connected := False,
       trace := trace s @
         [EvOpen (arg_port a) (arg_baud a),
          EvPrint (''Failed to connect to '' @ arg_port a @ '': '' @ exn_str e),
          EvPrint ''Failed to connect to the device. Please check the connection and try again.'']\<rparr>)"
  using assms by (simp add: main_def connect_serial_def Let_def log_event_def print_def)

text \<open>Where the port opens and the first poll returns, the web server is started.\<close>

lemma main_connect_ok:
  assumes "connect_serial rt (arg_port a) (arg_baud a) s = (Inr True, s1)"
    and "update_status rt s1 = (Inr (), s2)"
  shows "main rt a s =
     (Inr (), s2\<lparr>trace := trace s2 @ [EvAppRun (arg_host a) (arg_port_web a)]\<rparr>)"
  using assms by (simp add: main_def log_event_def)

text \<open>
  C9 fails on the code in its second half. The port opens, and the first reply of the
  device is \<^verbatim>\<open>5\<close>: the first poll, which \<^verbatim>\<open>main\<close> runs itself, raises \<^verbatim>\<open>TypeError\<close>,
  and \<^verbatim>\<open>main\<close> ends with it before the web server is started; no timer was started
  either.
\<close>

theorem main_first_reply_number:
  "fst (main (scripted True [''5'' \<mapsto> JInt 5]) default_args (initial_state ''5''))
     = Inl (Exn TypeError (quoted ''int'' @ '' object is not iterable'')) \<and>
   EvAppRun ''0.0.0.0'' 8080 \<notin>
     set (trace (snd (main (scripted True [''5'' \<mapsto> JInt 5]) default_args (initial_state ''5'')))) \<and>
   EvTimer 5000 \<notin>
     set (trace (snd (main (scripted True [''5'' \<mapsto> JInt 5]) default_args (initial_state ''5''))))"
  by (simp add: main_def connect_serial_def update_status_def update_status_try_def
      dict_update_def not_iterable_def default_args_def initial_state_def scripted_def
      fmt_def send_defs)

end
